theory Spec2Isabelle
  imports Complex_Main
begin

section \<open>Metric derivation: \<open>calculateMetrics\<close> (hooks/useWebSocket.ts)\<close>

text \<open>
  The raw frame is the interface \<open>RealTimeMetrics\<close> of types/system.ts: six numeric
  fields and nothing else (in particular no capture timestamp). JavaScript numbers are
  modelled as reals; the properties proved below do not depend on rounding.
\<close>

record RealTimeMetrics =
  LB_MFC_1_SP :: real
  LB_MFC_1_PV :: real
  Reactor_1_DO_Value_PPM :: real
  Reactor_1_DO_T_Value :: real
  Reactor_1_PH_Value :: real
  Reactor_1_PH_T_Value :: real

text \<open>
  \<open>new Date().toISOString()\<close> renders a clock reading (milliseconds since the epoch)
  as text. Distinct readings give distinct texts, which is all that is used of it, so
  the rendering is kept as a constructor around the reading.
\<close>

datatype iso_string = toISOString int

text \<open>The interface \<open>Metrics\<close> of types/metrics.ts.\<close>

record Metrics =
  drop_rate :: real
  recovery_time :: real
  our :: real
  sour :: real
  do_saturation :: real
  ph :: real
  temperature :: real
  timestamp :: iso_string

text \<open>
  \<open>calculateMetrics\<close> reads the wall clock four times: three calls of
  \<open>Date.now()\<close> (one each for recovery time, OUR and SOUR) and one \<open>new Date()\<close>
  for the timestamp. The four readings are the explicit input \<open>clock\<close>.
\<close>

record clock =
  now_recovery :: int
  now_our :: int
  now_sour :: int
  new_Date :: int

definition calculateMetrics :: "clock \<Rightarrow> RealTimeMetrics \<Rightarrow> Metrics" where
  "calculateMetrics clk data =
     \<lparr> drop_rate = LB_MFC_1_PV data,
       recovery_time = \<bar>10 * sin (real_of_int (now_recovery clk) / 5000)\<bar>,
       our = \<bar>0.5 + 0.1 * sin (real_of_int (now_our clk) / 7000)\<bar>,
       sour = \<bar>0.2 + 0.05 * sin (real_of_int (now_sour clk) / 9000)\<bar>,
       do_saturation = (Reactor_1_DO_Value_PPM data / 1000) * 100,
       ph = Reactor_1_PH_Value data,
       temperature = Reactor_1_DO_T_Value data,
       timestamp = toISOString (new_Date clk) \<rparr>"

text \<open>A frame whose fields are all zero except the DO concentration, and a clock
  whose four readings are the same instant: the concrete inputs used below.\<close>

definition frame_with_DO :: "real \<Rightarrow> RealTimeMetrics" where
  "frame_with_DO ppm =
     \<lparr> LB_MFC_1_SP = 0, LB_MFC_1_PV = 0, Reactor_1_DO_Value_PPM = ppm,
       Reactor_1_DO_T_Value = 0, Reactor_1_PH_Value = 0, Reactor_1_PH_T_Value = 0 \<rparr>"

definition clock_at :: "int \<Rightarrow> clock" where
  "clock_at t = \<lparr> now_recovery = t, now_our = t, now_sour = t, new_Date = t \<rparr>"

section \<open>Transport manager: \<open>WebSocketManager\<close> (utils/websocket.ts)\<close>

text \<open>
  The manager holds a reference \<open>ws\<close> to its current \<open>WebSocket\<close> (or null), the
  attempt counter, and the set of subscriber callbacks. Every \<open>WebSocket\<close> that
  \<open>connect\<close> creates keeps the four handlers that \<open>connect\<close> attached to it, and
  those handlers act on the manager whether or not \<open>ws\<close> still points at that
  socket. So the model keeps every socket created so far in a store (a list indexed by
  creation order) and \<open>ws\<close> is an index into it. The timeouts set by
  \<open>handleDisconnect\<close> are kept as the list of their delays; the code keeps no handle
  to them.
\<close>

datatype readyState = CONNECTING | OPEN | CLOSING | CLOSED

record socket =
  dashboard_port :: nat
  readyState :: readyState

datatype log_entry =
    Log_connected
  | Log_reconnecting nat
  | Error_parsing string
  | Error_websocket

record 'd manager =
  ws :: "nat option"
  reconnectAttempts :: nat
  callbacks :: "nat list"
  sockets :: "socket list"
  timers :: "nat list"
  delivered :: "(nat \<times> 'd) list"
  console :: "log_entry list"

definition maxReconnectAttempts :: nat where
  "maxReconnectAttempts = 5"

definition reconnectTimeout :: nat where
  "reconnectTimeout = 1000"

text \<open>The state of a freshly constructed manager.\<close>

definition new_manager :: "'d manager" where
  "new_manager =
     \<lparr> ws = None, reconnectAttempts = 0, callbacks = [], sockets = [], timers = [],
       delivered = [], console = [] \<rparr>"

text \<open>\<open>this.ws?.readyState\<close>: undefined (here \<open>None\<close>) when \<open>ws\<close> is null.\<close>

definition ws_readyState :: "'d manager \<Rightarrow> readyState option" where
  "ws_readyState st =
     (case ws st of
        None \<Rightarrow> None
      | Some i \<Rightarrow> if i < length (sockets st) then Some (readyState (sockets st ! i)) else None)"

text \<open>
  \<open>connect(config)\<close>: returns at once when the current socket is open; otherwise a
  new socket to \<open>ws://localhost:<dashboard_port>/ws\<close> is created (in state
  \<open>CONNECTING\<close>), \<open>ws\<close> is pointed at it and the handlers are attached.
\<close>

definition connect :: "nat \<Rightarrow> 'd manager \<Rightarrow> 'd manager" where
  "connect port st =
     (if ws_readyState st = Some OPEN then st
      else st\<lparr> sockets := sockets st @ [\<lparr> dashboard_port = port, readyState = CONNECTING \<rparr>],
               ws := Some (length (sockets st)) \<rparr>)"

text \<open>
  \<open>handleDisconnect\<close>: below the maximum, the counter is incremented and a timeout
  of \<open>reconnectTimeout * reconnectAttempts\<close> milliseconds is set.
\<close>

definition handleDisconnect :: "'d manager \<Rightarrow> 'd manager" where
  "handleDisconnect st =
     (if reconnectAttempts st < maxReconnectAttempts
      then st\<lparr> reconnectAttempts := reconnectAttempts st + 1,
               timers := timers st @ [reconnectTimeout * (reconnectAttempts st + 1)] \<rparr>
      else st)"

text \<open>
  The body of the timeout: it logs the counter as it is when the timeout fires and
  calls \<open>connect\<close> with the fixed dashboard port 8050.
\<close>

definition reconnect_callback :: "'d manager \<Rightarrow> 'd manager" where
  "reconnect_callback st =
     connect 8050 (st\<lparr> console := console st @ [Log_reconnecting (reconnectAttempts st)] \<rparr>)"

text \<open>\<open>subscribe\<close> adds to a set that iterates in insertion order; the function it
  returns deletes the callback again.\<close>

definition subscribe :: "nat \<Rightarrow> 'd manager \<Rightarrow> 'd manager" where
  "subscribe cb st =
     (if cb \<in> set (callbacks st) then st else st\<lparr> callbacks := callbacks st @ [cb] \<rparr>)"

definition unsubscribe :: "nat \<Rightarrow> 'd manager \<Rightarrow> 'd manager" where
  "unsubscribe cb st = st\<lparr> callbacks := removeAll cb (callbacks st) \<rparr>"

text \<open>
  \<open>notifyCallbacks\<close> calls every callback in turn. What a callback does is outside
  the manager; \<open>throws cb d\<close> says whether callback \<open>cb\<close> throws on \<open>d\<close> (and with
  what message), which ends the \<open>forEach\<close>. Each call is recorded in \<open>delivered\<close>.
\<close>

fun notify_each :: "(nat \<Rightarrow> 'd \<Rightarrow> string option) \<Rightarrow> 'd \<Rightarrow> nat list \<Rightarrow> (nat \<times> 'd) list
    \<Rightarrow> string option \<times> (nat \<times> 'd) list" where
  "notify_each throws d [] acc = (None, acc)"
| "notify_each throws d (cb # cbs) acc =
     (case throws cb d of
        Some e \<Rightarrow> (Some e, acc @ [(cb, d)])
      | None \<Rightarrow> notify_each throws d cbs (acc @ [(cb, d)]))"

definition notifyCallbacks :: "(nat \<Rightarrow> 'd \<Rightarrow> string option) \<Rightarrow> 'd \<Rightarrow> 'd manager
    \<Rightarrow> string option \<times> 'd manager" where
  "notifyCallbacks throws d st =
     (case notify_each throws d (callbacks st) (delivered st) of
        (r, dl) \<Rightarrow> (r, st\<lparr> delivered := dl \<rparr>))"

text \<open>The four handlers. \<open>JSON_parse\<close> is the language's parser: \<open>Inl\<close> is the
  \<open>SyntaxError\<close> it throws, \<open>Inr\<close> the value it returns.\<close>

definition onopen :: "'d manager \<Rightarrow> 'd manager" where
  "onopen st = st\<lparr> console := console st @ [Log_connected], reconnectAttempts := 0 \<rparr>"

definition onmessage :: "(string \<Rightarrow> string + 'd) \<Rightarrow> (nat \<Rightarrow> 'd \<Rightarrow> string option) \<Rightarrow> string
    \<Rightarrow> 'd manager \<Rightarrow> 'd manager" where
  "onmessage JSON_parse throws payload st =
     (case JSON_parse payload of
        Inl e \<Rightarrow> st\<lparr> console := console st @ [Error_parsing e] \<rparr>
      | Inr d \<Rightarrow>
          (case notifyCallbacks throws d st of
             (None, st') \<Rightarrow> st'
           | (Some e, st') \<Rightarrow> st'\<lparr> console := console st' @ [Error_parsing e] \<rparr>))"

definition onclose :: "'d manager \<Rightarrow> 'd manager" where
  "onclose st = handleDisconnect st"

definition onerror :: "'d manager \<Rightarrow> 'd manager" where
  "onerror st = handleDisconnect (st\<lparr> console := console st @ [Error_websocket] \<rparr>)"

text \<open>
  \<open>disconnect()\<close>: closes the current socket, if there is one, and drops the
  reference. \<open>close()\<close> on a socket that is not yet closing or closed moves it to
  \<open>CLOSING\<close>; its \<open>close\<close> event is delivered later.
\<close>

definition close_socket :: "socket \<Rightarrow> socket" where
  "close_socket s =
     (if readyState s = CLOSING \<or> readyState s = CLOSED then s
      else s\<lparr> readyState := CLOSING \<rparr>)"

definition disconnect :: "'d manager \<Rightarrow> 'd manager" where
  "disconnect st =
     (case ws st of
        None \<Rightarrow> st
      | Some i \<Rightarrow>
          st\<lparr> sockets := (if i < length (sockets st)
                            then (sockets st)[i := close_socket (sockets st ! i)]
                            else sockets st),
               ws := None \<rparr>)"

subsection \<open>The manager driven by its environment\<close>

text \<open>
  What happens to a manager: calls of its public methods, events of a socket it
  created, and a pending timeout firing. A socket event changes that socket's ready
  state as the platform does (\<open>open\<close>: \<open>CONNECTING\<close> to \<open>OPEN\<close>; \<open>close\<close>: to
  \<open>CLOSED\<close>) and then runs the handler; an event that the socket cannot produce in its
  state is ignored.
\<close>

datatype event =
    Call_connect nat
  | Call_disconnect
  | Call_subscribe nat
  | Call_unsubscribe nat
  | Socket_open nat
  | Socket_message nat string
  | Socket_error nat
  | Socket_close nat
  | Timeout_fires nat

definition set_readyState :: "nat \<Rightarrow> readyState \<Rightarrow> 'd manager \<Rightarrow> 'd manager" where
  "set_readyState i r st = st\<lparr> sockets := (sockets st)[i := (sockets st ! i)\<lparr> readyState := r \<rparr>] \<rparr>"

definition socket_in :: "'d manager \<Rightarrow> nat \<Rightarrow> readyState \<Rightarrow> bool" where
  "socket_in st i r = (i < length (sockets st) \<and> readyState (sockets st ! i) = r)"

fun step :: "(string \<Rightarrow> string + 'd) \<Rightarrow> (nat \<Rightarrow> 'd \<Rightarrow> string option) \<Rightarrow> event
    \<Rightarrow> 'd manager \<Rightarrow> 'd manager" where
  "step P T (Call_connect port) st = connect port st"
| "step P T Call_disconnect st = disconnect st"
| "step P T (Call_subscribe cb) st = subscribe cb st"
| "step P T (Call_unsubscribe cb) st = unsubscribe cb st"
| "step P T (Socket_open i) st =
     (if socket_in st i CONNECTING then onopen (set_readyState i OPEN st) else st)"
| "step P T (Socket_message i payload) st =
     (if socket_in st i OPEN then onmessage P T payload st else st)"
| "step P T (Socket_error i) st =
     (if i < length (sockets st) \<and> \<not> socket_in st i CLOSED then onerror st else st)"
| "step P T (Socket_close i) st =
     (if i < length (sockets st) \<and> \<not> socket_in st i CLOSED
      then onclose (set_readyState i CLOSED st) else st)"
| "step P T (Timeout_fires k) st =
     (if k < length (timers st)
      then reconnect_callback (st\<lparr> timers := take k (timers st) @ drop (Suc k) (timers st) \<rparr>)
      else st)"

fun run :: "(string \<Rightarrow> string + 'd) \<Rightarrow> (nat \<Rightarrow> 'd \<Rightarrow> string option) \<Rightarrow> event list
    \<Rightarrow> 'd manager \<Rightarrow> 'd manager" where
  "run P T [] st = st"
| "run P T (e # es) st = run P T es (step P T e st)"

text \<open>A parser that rejects every text but \<open>{}\<close>, and subscribers that never throw:
  the concrete environment of the examples below.\<close>

definition parse_only_empty_object :: "string \<Rightarrow> string + unit" where
  "parse_only_empty_object s = (if s = ''{}'' then Inr () else Inl ''SyntaxError'')"

definition never_throws :: "nat \<Rightarrow> unit \<Rightarrow> string option" where
  "never_throws cb d = None"

definition fresh :: "unit manager" where
  "fresh = new_manager"

definition states_of :: "'d manager \<Rightarrow> readyState list" where
  "states_of st = map readyState (sockets st)"


subsection \<open>Payloads\<close>

text \<open>
  The value \<open>JSON.parse\<close> returns is any JSON value. The handler casts it to
  \<open>RealTimeMetrics\<close> (types/system.ts) without a check; \<open>is_RealTimeMetrics\<close> says
  whether a value has the shape of that interface: an object with the six fields, each
  a number.
\<close>

datatype json =
    JNull
  | JBool bool
  | JNumber real
  | JString string
  | JArray "json list"
  | JObject "(string \<times> json) list"








section \<open>Persistence layer: class \<open>DatabaseConnection\<close> (src/data/database.py)\<close>

text \<open>
  The module is present in its compiled form (\<open>database.cpython-313.pyc\<close>). The
  definitions follow the bytecode of each method: its constants (the SQL texts), the
  names it loads, and its exception table, which shows what a \<open>try\<close> covers. The
  log and print calls are left out, as are the connection settings read from the
  process environment, which only feed the connection string.
\<close>

datatype exn = Exception string

text \<open>A Python \<open>float\<close>: a finite number, an infinity (\<open>True\<close> for the positive
  one) or NaN.\<close>

datatype pyfloat = Finite real | Infinity bool | NaN

datatype py =
    PyNone
  | PyStr string
  | PyInt int
  | PyFloat pyfloat
  | PyDatetime nat
  | PyDict "(string \<times> py) list"

type_synonym row = "(string \<times> py) list"

text \<open>A statement as SQLAlchemy receives it: the text given to \<open>text(...)\<close>, and
  the dictionary of bound parameters passed beside it.\<close>

record statement =
  sql :: string
  binds :: "(string \<times> py) list"

text \<open>
  The upstream store, seen through \<open>reactor_engine\<close>: what opening a connection and
  running a statement gives, either the rows or the exception raised on the way.
\<close>

type_synonym upstream = "statement \<Rightarrow> exn + row list"

text \<open>The SQL texts are triple-quoted literals: a line break, then the lines below,
  each followed by a line break except the last.\<close>

definition sql_text :: "string list \<Rightarrow> string" where
  "sql_text ls = concat (map (\<lambda>l. CHR 0x0A # l) ls)"

definition latest_data_sql :: string where
  "latest_data_sql = sql_text
     [''            SELECT '',
      ''                DateTime as timestamp,  -- Explicitly name as timestamp'',
      ''                -- Rest of columns'',
      ''                LB_MFC_1_SP,'',
      ''                LB_MFC_1_PV,'',
      ''                Reactor_1_DO_Value_PPM,'',
      ''                Reactor_1_DO_T_Value,'',
      ''                Reactor_1_PH_Value,'',
      ''                Reactor_1_PH_T_Value,'',
      ''                R1_Weight_Bal,'',
      ''                R2_Weight_Bal,'',
      ''                LB_Perastaltic_P_1,'',
      ''                R1_Perastaltic_1_Time,'',
      ''                R1_Perastaltic_1_Time_off,'',
      ''                Reactor_1_Speed_RPM,'',
      ''                Reactor_1_Torque_Real'',
      ''            FROM ReactorData'',
      ''            WHERE DateTime >= DATEADD(minute, -:minutes, GETDATE())'',
      ''            ORDER BY DateTime ASC'',
      ''        '']"

definition current_values_sql :: string where
  "current_values_sql = sql_text
     [''            SELECT TOP 1'',
      ''                -- MFC1 values'',
      ''                LB_MFC_1_SP,'',
      ''                LB_MFC_1_PV,'',
      ''                -- Reactor 1 DO'',
      ''                Reactor_1_DO_Value_PPM,'',
      ''                Reactor_1_DO_T_Value,'',
      ''                -- Reactor 1 pH'',
      ''                Reactor_1_PH_Value,'',
      ''                Reactor_1_PH_T_Value,'',
      ''                -- Weights'',
      ''                R1_Weight_Bal,'',
      ''                R2_Weight_Bal,'',
      ''                -- Pump 1 settings'',
      ''                LB_Perastaltic_P_1,'',
      ''                R1_Perastaltic_1_Time,'',
      ''                R1_Perastaltic_1_Time_off,'',
      ''                -- Speed and torque'',
      ''                Reactor_1_Speed_RPM,'',
      ''                Reactor_1_Torque_Real'',
      ''            FROM ReactorData'',
      ''            ORDER BY DateTime DESC'',
      ''        '']"

definition historical_data_sql :: string where
  "historical_data_sql = sql_text
     [''            SELECT timestamp, do_value, ph_value, temperature, '',
      ''                   agitation, reactor_weight, feed_bottle_weight'',
      ''            FROM sensor_data'',
      ''            WHERE timestamp BETWEEN :start_time AND :end_time'',
      ''            ORDER BY timestamp ASC'',
      ''        '']"

datatype engine = Mssql_engine | Sqlite_engine

text \<open>The attributes of the object that the methods below read. An engine attribute
  is \<open>None\<close> while the constructor has not assigned it.\<close>

record DatabaseConnection =
  is_connected :: bool
  required :: bool
  reactor_engine :: "engine option"
  dashboard_engine :: "engine option"

text \<open>
  The local store (SQLite file \<open>data/dashboard.db\<close>): the rows of table
  \<open>feed_parameters\<close> (\<open>None\<close> while the table does not exist), whether table
  \<open>process_parameters\<close> exists, and a fault that, when present, makes every
  connection or statement raise. The two \<open>FLOAT\<close> columns of a row may be
  \<open>NULL\<close> (here \<open>None\<close>).
\<close>

record feed_row =
  row_id :: nat
  feed_type :: string
  toc_value :: "pyfloat option"
  glucose_concentration :: "pyfloat option"
  row_timestamp :: nat

record local_store =
  feed_parameters :: "feed_row list option"
  process_parameters :: bool
  fault :: "exn option"

text \<open>
  \<open>initialize_dashboard_database\<close>: two \<open>CREATE TABLE IF NOT EXISTS\<close> statements
  and a commit, all inside \<open>try ... except Exception\<close>, which prints and returns.
\<close>

definition initialize_dashboard_database :: "DatabaseConnection \<Rightarrow> local_store \<Rightarrow> local_store" where
  "initialize_dashboard_database self store =
     (case dashboard_engine self of
        None \<Rightarrow> store
      | Some _ \<Rightarrow>
          (case fault store of
             Some e \<Rightarrow> store
           | None \<Rightarrow>
               store\<lparr> feed_parameters :=
                         (case feed_parameters store of None \<Rightarrow> Some [] | Some rs \<Rightarrow> Some rs),
                      process_parameters := True \<rparr>))"

text \<open>
  What the constructor meets: whether creating the reactor engine raises, whether
  creating the dashboard engine raises (it makes the directory \<open>data\<close> first), and
  whether \<open>_test_connection\<close> raises (it connects with pyodbc, runs
  \<open>SELECT @@version\<close>, and re-raises what it catches).
\<close>

record startup =
  create_reactor_engine :: "exn option"
  create_dashboard_engine :: "exn option"
  test_connection :: "exn option"

text \<open>
  \<open>__init__(self, required)\<close>, as its bytecode reads:
  \<^verbatim>\<open>
  self.is_connected = False
  self.required = required
  ...                                  # seven settings from os.getenv
  try:
      self.conn_str = self._build_connection_string()
      self.reactor_engine = self._create_reactor_engine()
      self.dashboard_engine = self._create_dashboard_engine()
      self.initialize_dashboard_database()
      self._test_connection()
      self.is_connected = True
      logger.info(...)
  except Exception as e:
      logger.error(...)
      if self.required:
          raise
      logger.warning(...)
  \<close>
\<close>

definition init_handler :: "exn \<Rightarrow> DatabaseConnection \<Rightarrow> exn + DatabaseConnection" where
  "init_handler e self = (if required self then Inl e else Inr self)"

definition init :: "startup \<Rightarrow> bool \<Rightarrow> local_store \<Rightarrow> (exn + DatabaseConnection) \<times> local_store" where
  "init env req store =
     (let self0 = \<lparr> is_connected = False, required = req,
                     reactor_engine = None, dashboard_engine = None \<rparr>
      in case create_reactor_engine env of
           Some e \<Rightarrow> (init_handler e self0, store)
         | None \<Rightarrow>
             (let self1 = self0\<lparr> reactor_engine := Some Mssql_engine \<rparr>
              in case create_dashboard_engine env of
                   Some e \<Rightarrow> (init_handler e self1, store)
                 | None \<Rightarrow>
                     (let self2 = self1\<lparr> dashboard_engine := Some Sqlite_engine \<rparr>;
                          store' = initialize_dashboard_database self2 store
                      in case test_connection env of
                           Some e \<Rightarrow> (init_handler e self2, store')
                         | None \<Rightarrow> (Inr (self2\<lparr> is_connected := True \<rparr>), store'))))"

text \<open>
  \<open>df['timestamp'] = pd.to_datetime(df['timestamp'])\<close> on the rows of a frame: the
  column must be there, and the conversion \<open>conv\<close> of a value may raise.
\<close>

fun to_datetime_column :: "(py \<Rightarrow> exn + py) \<Rightarrow> row list \<Rightarrow> exn + row list" where
  "to_datetime_column conv [] = Inr []"
| "to_datetime_column conv (r # rs) =
     (case map_of r ''timestamp'' of
        None \<Rightarrow> Inl (Exception ''KeyError'')
      | Some v \<Rightarrow>
          (case conv v of
             Inl e \<Rightarrow> Inl e
           | Inr v' \<Rightarrow>
               (case to_datetime_column conv rs of
                  Inl e \<Rightarrow> Inl e
                | Inr rs' \<Rightarrow>
                    Inr (map (\<lambda>(k, x). if k = ''timestamp'' then (k, v') else (k, x)) r # rs'))))"

text \<open>
  The body shared by \<open>get_latest_data\<close> and \<open>get_historical_data\<close>:
  \<open>with self.reactor_engine.connect() as conn\<close>, \<open>pd.read_sql_query(query, conn,
  params=...)\<close>, the timestamp conversion, \<open>return df\<close>.
\<close>

definition read_frame :: "DatabaseConnection \<Rightarrow> upstream \<Rightarrow> (py \<Rightarrow> exn + py) \<Rightarrow> statement
    \<Rightarrow> exn + row list" where
  "read_frame self up conv stmt =
     (case reactor_engine self of
        None \<Rightarrow> Inl (Exception ''AttributeError'')
      | Some _ \<Rightarrow>
          (case up stmt of
             Inl e \<Rightarrow> Inl e
           | Inr rows \<Rightarrow> to_datetime_column conv rows))"

text \<open>
  \<open>get_latest_data(self, minutes)\<close>, as its bytecode reads:
  \<^verbatim>\<open>
  query = text(<latest_data_sql>)
  try:
      with self.reactor_engine.connect() as conn:
          df = pd.read_sql_query(query, conn, params={'minutes': minutes})
          df['timestamp'] = pd.to_datetime(df['timestamp'])
          return df
  except Exception as e:
      logger.error(...)
      return pd.DataFrame()
  \<close>
\<close>

definition latest_data_query :: "int \<Rightarrow> statement" where
  "latest_data_query minutes =
     \<lparr> sql = latest_data_sql, binds = [(''minutes'', PyInt minutes)] \<rparr>"

definition get_latest_data :: "DatabaseConnection \<Rightarrow> upstream \<Rightarrow> (py \<Rightarrow> exn + py) \<Rightarrow> int
    \<Rightarrow> exn + row list" where
  "get_latest_data self up conv minutes =
     (case read_frame self up conv (latest_data_query minutes) of
        Inl e \<Rightarrow> Inr []
      | Inr df \<Rightarrow> Inr df)"

text \<open>
  \<open>get_historical_data(self, start_time, end_time)\<close>, as its bytecode reads: the
  same body with no \<open>try\<close> around it. The only entries of its exception table are
  those of the \<open>with\<close> statement, which re-raise, and the code has no
  exception-matching instruction.
  \<^verbatim>\<open>
  query = text(<historical_data_sql>)
  with self.reactor_engine.connect() as conn:
      df = pd.read_sql_query(query, conn,
                             params={'start_time': start_time, 'end_time': end_time})
      df['timestamp'] = pd.to_datetime(df['timestamp'])
      return df
  \<close>
\<close>

definition historical_data_query :: "string \<Rightarrow> string \<Rightarrow> statement" where
  "historical_data_query start_time end_time =
     \<lparr> sql = historical_data_sql,
       binds = [(''start_time'', PyStr start_time), (''end_time'', PyStr end_time)] \<rparr>"

definition get_historical_data :: "DatabaseConnection \<Rightarrow> upstream \<Rightarrow> (py \<Rightarrow> exn + py)
    \<Rightarrow> string \<Rightarrow> string \<Rightarrow> exn + row list" where
  "get_historical_data self up conv start_time end_time =
     read_frame self up conv (historical_data_query start_time end_time)"

text \<open>
  \<open>get_current_values(self)\<close>: \<open>fetchone()\<close> of the query; when there is a row, a
  dictionary of dictionaries built from thirteen of its attributes; otherwise, and in
  the handler for \<open>Exception\<close>, the empty dictionary.
\<close>

fun attrs :: "row \<Rightarrow> string list \<Rightarrow> exn + py list" where
  "attrs r [] = Inr []"
| "attrs r (n # ns) =
     (case map_of r n of
        None \<Rightarrow> Inl (Exception ''AttributeError'')
      | Some v \<Rightarrow> (case attrs r ns of Inl e \<Rightarrow> Inl e | Inr vs \<Rightarrow> Inr (v # vs)))"

definition current_values_query :: statement where
  "current_values_query = \<lparr> sql = current_values_sql, binds = [] \<rparr>"

definition current_values_dict :: "row \<Rightarrow> exn + py" where
  "current_values_dict r =
     (case attrs r [''LB_MFC_1_SP'', ''LB_MFC_1_PV'', ''Reactor_1_DO_Value_PPM'',
                    ''Reactor_1_DO_T_Value'', ''Reactor_1_PH_Value'', ''Reactor_1_PH_T_Value'',
                    ''R1_Weight_Bal'', ''R2_Weight_Bal'', ''LB_Perastaltic_P_1'',
                    ''R1_Perastaltic_1_Time'', ''R1_Perastaltic_1_Time_off'',
                    ''Reactor_1_Speed_RPM'', ''Reactor_1_Torque_Real''] of
        Inr [sp, pv, do_v, do_t, ph_v, ph_t, r1, r2, status, time_on, time_off, speed, torque] \<Rightarrow>
          Inr (PyDict
            [(''mfc1'', PyDict [(''sp'', sp), (''pv'', pv)]),
             (''do'', PyDict [(''value'', do_v), (''temp'', do_t)]),
             (''ph'', PyDict [(''value'', ph_v), (''temp'', ph_t)]),
             (''weights'', PyDict [(''r1'', r1), (''r2'', r2)]),
             (''pump'', PyDict [(''status'', status), (''time_on'', time_on),
                                (''time_off'', time_off)]),
             (''operation'', PyDict [(''speed'', speed), (''torque'', torque)])])
      | Inr _ \<Rightarrow> Inl (Exception ''AttributeError'')
      | Inl e \<Rightarrow> Inl e)"

definition current_values_try :: "DatabaseConnection \<Rightarrow> upstream \<Rightarrow> exn + py" where
  "current_values_try self up =
     (case reactor_engine self of
        None \<Rightarrow> Inl (Exception ''AttributeError'')
      | Some _ \<Rightarrow>
          (case up current_values_query of
             Inl e \<Rightarrow> Inl e
           | Inr [] \<Rightarrow> Inr (PyDict [])
           | Inr (result # _) \<Rightarrow>
               if result = [] then Inr (PyDict []) else current_values_dict result))"

definition get_current_values :: "DatabaseConnection \<Rightarrow> upstream \<Rightarrow> exn + py" where
  "get_current_values self up =
     (case current_values_try self up of
        Inl e \<Rightarrow> Inr (PyDict [])
      | Inr d \<Rightarrow> Inr d)"






text \<open>Concrete inputs for the examples below: an upstream store that cannot be
  reached, the start-up that meets it, the identity conversion, and a local store
  whose tables exist, empty or holding one row.\<close>

definition unreachable :: upstream where
  "unreachable stmt = Inl (Exception ''OperationalError'')"

definition startup_unreachable :: startup where
  "startup_unreachable =
     \<lparr> create_reactor_engine = None, create_dashboard_engine = None,
       test_connection = Some (Exception ''OperationalError'') \<rparr>"

definition no_conversion :: "py \<Rightarrow> exn + py" where
  "no_conversion v = Inr v"

definition empty_store :: local_store where
  "empty_store = \<lparr> feed_parameters = Some [], process_parameters = True, fault = None \<rparr>"

definition degraded :: DatabaseConnection where
  "degraded =
     \<lparr> is_connected = False, required = False,
       reactor_engine = Some Mssql_engine, dashboard_engine = Some Sqlite_engine \<rparr>"


section \<open>Properties of the metric derivation\<close>

text \<open>
  C1 (as stated): for every frame the \<open>do_saturation\<close> output lies in [0,100].
  The code does not clamp: a DO concentration of 2000 PPM yields 200.
\<close>

theorem C1_do_saturation_counterexample:
  "do_saturation (calculateMetrics (clock_at 0) (frame_with_DO 2000)) = 200 \<and>
   \<not> (do_saturation (calculateMetrics (clock_at 0) (frame_with_DO 2000)) \<le> 100)"
  by (simp add: calculateMetrics_def frame_with_DO_def)

text \<open>
  C1 (amended): \<open>do_saturation\<close> is the DO concentration divided by 1000 and
  multiplied by 100, passed through unclamped; it lies in [0,100] whenever the DO
  concentration lies in [0,1000].
\<close>

theorem C1_do_saturation_unclamped:
  "do_saturation (calculateMetrics clk data) = (Reactor_1_DO_Value_PPM data / 1000) * 100 \<and>
   (0 \<le> Reactor_1_DO_Value_PPM data \<and> Reactor_1_DO_Value_PPM data \<le> 1000 \<longrightarrow>
      0 \<le> do_saturation (calculateMetrics clk data) \<and>
      do_saturation (calculateMetrics clk data) \<le> 100)"
  by (simp add: calculateMetrics_def)

theorem C1_do_saturation_unclamped_witness:
  "0 \<le> Reactor_1_DO_Value_PPM (frame_with_DO 800) \<and>
   Reactor_1_DO_Value_PPM (frame_with_DO 800) \<le> 1000 \<and>
   do_saturation (calculateMetrics (clock_at 0) (frame_with_DO 800)) = 80 \<and>
   0 \<le> do_saturation (calculateMetrics (clock_at 0) (frame_with_DO 800)) \<and>
   do_saturation (calculateMetrics (clock_at 0) (frame_with_DO 800)) \<le> 100"
  using C1_do_saturation_unclamped [of "clock_at 0" "frame_with_DO 800"]
  by (simp add: frame_with_DO_def)

text \<open>
  C8 (as stated): the timestamp of the derived metrics is the capture timestamp of
  the triggering frame. The frame type has no timestamp field; the same frame
  processed at two different clock readings gets two different timestamps.
\<close>

theorem C8_timestamp_counterexample:
  "timestamp (calculateMetrics (clock_at 0) (frame_with_DO 800)) \<noteq>
   timestamp (calculateMetrics (clock_at 1000) (frame_with_DO 800))"
  by (simp add: calculateMetrics_def clock_at_def)

text \<open>
  C8 (amended): the timestamp of the derived metrics is the ISO rendering of the
  wall clock read while the frame is processed (\<open>new Date()\<close>); it is the same for
  every frame processed at that reading.
\<close>

theorem C8_timestamp_is_processing_time:
  "timestamp (calculateMetrics clk data) = toISOString (new_Date clk) \<and>
   timestamp (calculateMetrics clk data) = timestamp (calculateMetrics clk data')"
  by (simp add: calculateMetrics_def)

text \<open>
  C10: \<open>recovery_time\<close>, \<open>our\<close> and \<open>sour\<close> do not depend on the frame: two
  frames evaluated at the same clock readings give the same three values; and
  \<open>recovery_time\<close> lies in [0,10], \<open>our\<close> and \<open>sour\<close> are non-negative.
\<close>

theorem C10_simulated_metrics_ignore_frame:
  "recovery_time (calculateMetrics clk d1) = recovery_time (calculateMetrics clk d2) \<and>
   our (calculateMetrics clk d1) = our (calculateMetrics clk d2) \<and>
   sour (calculateMetrics clk d1) = sour (calculateMetrics clk d2) \<and>
   0 \<le> recovery_time (calculateMetrics clk d1) \<and>
   recovery_time (calculateMetrics clk d1) \<le> 10 \<and>
   0 \<le> our (calculateMetrics clk d1) \<and>
   0 \<le> sour (calculateMetrics clk d1)"
proof -
  have "\<bar>sin (real_of_int (now_recovery clk) / 5000)\<bar> \<le> 1"
    by (rule abs_sin_le_one)
  then have "\<bar>10 * sin (real_of_int (now_recovery clk) / 5000)\<bar> \<le> 10"
    by (simp add: abs_mult)
  then show ?thesis
    by (simp add: calculateMetrics_def)
qed

section \<open>Properties of the transport manager\<close>

lemma handleDisconnect_below_max:
  "reconnectAttempts st < 5 \<Longrightarrow>
   handleDisconnect st =
     st\<lparr> reconnectAttempts := reconnectAttempts st + 1,
         timers := timers st @ [1000 * (reconnectAttempts st + 1)] \<rparr>"
  by (simp add: handleDisconnect_def maxReconnectAttempts_def reconnectTimeout_def)

lemma handleDisconnect_at_max:
  "\<not> reconnectAttempts st < 5 \<Longrightarrow> handleDisconnect st = st"
  by (simp add: handleDisconnect_def maxReconnectAttempts_def)

lemma handleDisconnect_repeated:
  "reconnectAttempts st \<le> 5 \<Longrightarrow>
   reconnectAttempts ((handleDisconnect ^^ k) st) = min (reconnectAttempts st + k) 5 \<and>
   length (timers ((handleDisconnect ^^ k) st)) =
     length (timers st) + (min (reconnectAttempts st + k) 5 - reconnectAttempts st)"
proof (induction k)
  case 0
  then show ?case by simp
next
  case (Suc k)
  let ?s = "(handleDisconnect ^^ k) st"
  from Suc have ih:
    "reconnectAttempts ?s = min (reconnectAttempts st + k) 5"
    "length (timers ?s) =
       length (timers st) + (min (reconnectAttempts st + k) 5 - reconnectAttempts st)"
    by simp_all
  show ?case
  proof (cases "reconnectAttempts ?s < 5")
    case True
    with ih Suc.prems show ?thesis
      by (auto simp: handleDisconnect_below_max min_def split: if_splits)
  next
    case False
    with ih Suc.prems show ?thesis
      by (auto simp: handleDisconnect_at_max min_def split: if_splits)
  qed
qed









text \<open>
  C3 (as stated): \<open>connect\<close> while a connection attempt is in flight is a no-op, and
  the manager never has more than one active connection. A second \<open>connect\<close> before
  the first socket has opened creates a second socket, and both can then open.
\<close>

theorem C3_connect_counterexample:
  "states_of (run parse_only_empty_object never_throws
      [Call_connect 8050, Call_connect 8050] fresh) = [CONNECTING, CONNECTING] \<and>
   states_of (run parse_only_empty_object never_throws
      [Call_connect 8050, Call_connect 8050, Socket_open 0, Socket_open 1] fresh) = [OPEN, OPEN]"
  by (simp add: fresh_def new_manager_def connect_def ws_readyState_def states_of_def
      onopen_def set_readyState_def socket_in_def)

text \<open>
  C3 (amended): \<open>connect\<close> is a no-op exactly when the manager's current socket is
  open (\<open>Connected\<close>). In every other state, also while an attempt is in flight, it
  creates one more connection and makes it the current one; the previous socket is
  left as it is.
\<close>

theorem C3_connect_noop_only_when_open:
  "(ws_readyState st = Some OPEN \<longrightarrow> connect port st = st) \<and>
   (ws_readyState st \<noteq> Some OPEN \<longrightarrow>
      sockets (connect port st) =
        sockets st @ [\<lparr> dashboard_port = port, readyState = CONNECTING \<rparr>] \<and>
      ws (connect port st) = Some (length (sockets st)))"
  by (simp add: connect_def)

theorem C3_connect_noop_only_when_open_witness:
  "ws_readyState (step parse_only_empty_object never_throws (Socket_open 0) (connect 8050 fresh))
     = Some OPEN \<and>
   connect 8050 (step parse_only_empty_object never_throws (Socket_open 0) (connect 8050 fresh))
     = step parse_only_empty_object never_throws (Socket_open 0) (connect 8050 fresh) \<and>
   ws_readyState (connect 8050 fresh) \<noteq> Some OPEN \<and>
   length (sockets (connect 8050 (connect 8050 fresh))) = 2 \<and>
   ws (connect 8050 (connect 8050 fresh)) = Some 1"
proof -
  let ?o = "step parse_only_empty_object never_throws (Socket_open 0) (connect 8050 fresh)"
  have a: "ws_readyState ?o = Some OPEN"
    by (simp add: fresh_def new_manager_def connect_def ws_readyState_def onopen_def
        set_readyState_def socket_in_def)
  have b: "ws_readyState (connect 8050 fresh) \<noteq> Some OPEN"
    by (simp add: fresh_def new_manager_def connect_def ws_readyState_def)
  have c: "length (sockets (connect 8050 fresh)) = 1"
    by (simp add: fresh_def new_manager_def connect_def ws_readyState_def)
  from a b c C3_connect_noop_only_when_open [of ?o 8050]
    C3_connect_noop_only_when_open [of "connect 8050 fresh" 8050]
  show ?thesis by simp
qed

text \<open>
  C4 (as stated): after \<open>disconnect()\<close> no connection attempt occurs until a new
  explicit \<open>connect()\<close>; a retry scheduled earlier never fires afterwards. The code
  keeps no handle to its timeouts and cancels none. First trace: a failure schedules a
  retry, \<open>disconnect\<close> follows, the timeout fires and opens socket 1. Second trace:
  \<open>disconnect\<close> of an open connection; its \<open>close\<close> event runs \<open>handleDisconnect\<close>,
  which schedules a retry.
\<close>

theorem C4_disconnect_counterexample:
  "timers (run parse_only_empty_object never_throws
      [Call_connect 8050, Socket_close 0, Call_disconnect] fresh) = [1000] \<and>
   ws (run parse_only_empty_object never_throws
      [Call_connect 8050, Socket_close 0, Call_disconnect, Timeout_fires 0] fresh) = Some 1 \<and>
   states_of (run parse_only_empty_object never_throws
      [Call_connect 8050, Socket_close 0, Call_disconnect, Timeout_fires 0] fresh)
     = [CLOSED, CONNECTING] \<and>
   timers (run parse_only_empty_object never_throws
      [Call_connect 8050, Socket_open 0, Call_disconnect, Socket_close 0] fresh) = [1000]"
  by (simp add: fresh_def new_manager_def connect_def ws_readyState_def states_of_def
      onopen_def onclose_def handleDisconnect_def maxReconnectAttempts_def
      reconnectTimeout_def reconnect_callback_def set_readyState_def socket_in_def
      disconnect_def close_socket_def)

text \<open>
  C4 (amended): \<open>disconnect()\<close> closes the manager's current socket, if it has one,
  and drops the reference to it; it leaves the attempt counter and the pending retry
  timeouts as they are. A retry scheduled before the \<open>disconnect()\<close> still fires
  afterwards and opens a new connection, which becomes the current one.
\<close>

theorem C4_disconnect_keeps_timers:
  "ws (disconnect st) = None \<and>
   timers (disconnect st) = timers st \<and>
   reconnectAttempts (disconnect st) = reconnectAttempts st \<and>
   length (sockets (disconnect st)) = length (sockets st) \<and>
   (\<forall>i. ws st = Some i \<and> i < length (sockets st) \<longrightarrow>
      readyState (sockets (disconnect st) ! i) \<in> {CLOSING, CLOSED}) \<and>
   (\<forall>k. k < length (timers st) \<longrightarrow>
      ws (step JSON_parse throws (Timeout_fires k) (disconnect st)) = Some (length (sockets st)) \<and>
      socket_in (step JSON_parse throws (Timeout_fires k) (disconnect st))
        (length (sockets st)) CONNECTING)"
  by (cases "ws st")
    (auto simp: disconnect_def close_socket_def reconnect_callback_def connect_def
      ws_readyState_def socket_in_def nth_append)

theorem C4_disconnect_keeps_timers_witness:
  "ws (handleDisconnect (connect 8050 fresh)) = Some 0 \<and>
   length (timers (handleDisconnect (connect 8050 fresh))) = 1 \<and>
   timers (disconnect (handleDisconnect (connect 8050 fresh))) = [1000] \<and>
   readyState (sockets (disconnect (handleDisconnect (connect 8050 fresh))) ! 0)
     \<in> {CLOSING, CLOSED} \<and>
   ws (step parse_only_empty_object never_throws (Timeout_fires 0)
        (disconnect (handleDisconnect (connect 8050 fresh)))) = Some 1"
proof -
  let ?s = "handleDisconnect (connect 8050 fresh)"
  have a: "ws ?s = Some 0" "timers ?s = [1000]" "length (sockets ?s) = 1"
    by (simp_all add: fresh_def new_manager_def connect_def ws_readyState_def
        handleDisconnect_def maxReconnectAttempts_def reconnectTimeout_def)
  note t = C4_disconnect_keeps_timers [of ?s parse_only_empty_object never_throws]
  from t have b: "timers (disconnect ?s) = timers ?s"
    by blast
  from t a have c: "readyState (sockets (disconnect ?s) ! 0) \<in> {CLOSING, CLOSED}"
    by simp
  from t have "\<forall>k. k < length (timers ?s) \<longrightarrow>
      ws (step parse_only_empty_object never_throws (Timeout_fires k) (disconnect ?s))
        = Some (length (sockets ?s))"
    by blast
  with a have d: "ws (step parse_only_empty_object never_throws (Timeout_fires 0) (disconnect ?s))
      = Some 1"
    by (simp del: step.simps)
  from a b c d show ?thesis
    by (simp del: step.simps)
qed






section \<open>Properties of the persistence layer\<close>

lemma init_not_required_returns:
  "\<exists>self. fst (init env False store) = Inr self \<and> \<not> required self"
  by (simp add: init_def init_handler_def Let_def split: option.splits)

lemma init_required_raises:
  "test_connection env = Some e \<Longrightarrow> create_reactor_engine env = None \<Longrightarrow>
   create_dashboard_engine env = None \<Longrightarrow> fst (init env True store) = Inl e"
  by (simp add: init_def init_handler_def Let_def)

lemma get_latest_data_returns:
  "\<exists>df. get_latest_data self up conv minutes = Inr df"
  by (simp add: get_latest_data_def split: sum.splits)

lemma get_latest_data_empty_on_failure:
  "up (latest_data_query minutes) = Inl e \<Longrightarrow> get_latest_data self up conv minutes = Inr []"
  by (simp add: get_latest_data_def read_frame_def split: option.splits)

lemma get_current_values_returns:
  "\<exists>d. get_current_values self up = Inr d"
  by (simp add: get_current_values_def split: sum.splits)

lemma get_current_values_empty_on_failure:
  "up current_values_query = Inl e \<Longrightarrow> get_current_values self up = Inr (PyDict [])"
  by (simp add: get_current_values_def current_values_try_def split: option.splits)

lemma get_historical_data_raises:
  "up (historical_data_query start_time end_time) = Inl e \<Longrightarrow> reactor_engine self = Some eng \<Longrightarrow>
   get_historical_data self up conv start_time end_time = Inl e"
  by (simp add: get_historical_data_def read_frame_def)


text \<open>
  C5: with \<open>required = False\<close> and the upstream store out of reach, construction
  returns, and every query method that fails returns an empty result instead of
  raising. Construction does return (\<open>init_not_required_returns\<close>), and
  \<open>get_latest_data\<close> and \<open>get_current_values\<close> return empty results
  (\<open>get_latest_data_returns\<close>, \<open>get_current_values_returns\<close>). The historical-range
  query has no handler: on the same object and the same upstream store it raises the
  upstream exception.
\<close>

theorem C5_historical_query_raises:
  "fst (init startup_unreachable False empty_store) = Inr degraded \<and>
   get_latest_data degraded unreachable no_conversion 5 = Inr [] \<and>
   get_current_values degraded unreachable = Inr (PyDict []) \<and>
   get_historical_data degraded unreachable no_conversion
     ''2024-01-01T00:00:00'' ''2024-01-02T00:00:00'' = Inl (Exception ''OperationalError'')"
  by (simp add: init_def init_handler_def Let_def startup_unreachable_def empty_store_def
      degraded_def initialize_dashboard_database_def get_latest_data_def read_frame_def
      unreachable_def get_current_values_def current_values_try_def get_historical_data_def)

text \<open>
  C6: the queries sent to the upstream store are parameterized. The text of the
  historical-range statement is one constant, the same for all arguments;
  \<open>start_time\<close> and \<open>end_time\<close> travel as bound parameters of those names; and
  the method consults the upstream store with this statement only. The same holds of
  the latest-data statement and its \<open>minutes\<close>, and of the current-values statement,
  which has no parameter.
\<close>

theorem C6_upstream_queries_parameterized:
  "sql (historical_data_query start_time end_time) = historical_data_sql \<and>
   sql (historical_data_query start_time end_time) = sql (historical_data_query start_time' end_time') \<and>
   binds (historical_data_query start_time end_time)
     = [(''start_time'', PyStr start_time), (''end_time'', PyStr end_time)] \<and>
   (up (historical_data_query start_time end_time) = up' (historical_data_query start_time end_time) \<longrightarrow>
      get_historical_data self up conv start_time end_time
        = get_historical_data self up' conv start_time end_time) \<and>
   sql (latest_data_query minutes) = sql (latest_data_query minutes') \<and>
   binds (latest_data_query minutes) = [(''minutes'', PyInt minutes)] \<and>
   (up (latest_data_query minutes) = up' (latest_data_query minutes) \<longrightarrow>
      get_latest_data self up conv minutes = get_latest_data self up' conv minutes) \<and>
   binds current_values_query = [] \<and>
   (up current_values_query = up' current_values_query \<longrightarrow>
      get_current_values self up = get_current_values self up')"
proof -
  have "up (historical_data_query start_time end_time) = up' (historical_data_query start_time end_time)
      \<Longrightarrow> get_historical_data self up conv start_time end_time
        = get_historical_data self up' conv start_time end_time"
    by (simp add: get_historical_data_def read_frame_def split: option.splits)
  moreover have "up (latest_data_query minutes) = up' (latest_data_query minutes)
      \<Longrightarrow> get_latest_data self up conv minutes = get_latest_data self up' conv minutes"
    by (simp add: get_latest_data_def read_frame_def split: option.splits)
  moreover have "up current_values_query = up' current_values_query
      \<Longrightarrow> get_current_values self up = get_current_values self up'"
    by (simp add: get_current_values_def current_values_try_def split: option.splits)
  ultimately show ?thesis
    by (simp add: historical_data_query_def latest_data_query_def current_values_query_def)
qed

theorem C6_upstream_queries_parameterized_witness:
  "sql (historical_data_query ''1 OR 1=1; DROP TABLE sensor_data'' ''2024-01-02'')
     = sql (historical_data_query ''2024-01-01'' ''2024-01-02'') \<and>
   binds (historical_data_query ''1 OR 1=1; DROP TABLE sensor_data'' ''2024-01-02'')
     = [(''start_time'', PyStr ''1 OR 1=1; DROP TABLE sensor_data''),
        (''end_time'', PyStr ''2024-01-02'')] \<and>
   unreachable (historical_data_query ''2024-01-01'' ''2024-01-02'')
     = (\<lambda>stmt. if sql stmt = historical_data_sql then Inl (Exception ''OperationalError'')
                else Inr []) (historical_data_query ''2024-01-01'' ''2024-01-02'') \<and>
   get_historical_data degraded unreachable no_conversion ''2024-01-01'' ''2024-01-02''
     = get_historical_data degraded
         (\<lambda>stmt. if sql stmt = historical_data_sql then Inl (Exception ''OperationalError'')
                  else Inr [])
         no_conversion ''2024-01-01'' ''2024-01-02''"
proof -
  let ?up = "\<lambda>stmt. if sql stmt = historical_data_sql
                     then Inl (Exception ''OperationalError'') else Inr []"
  have a: "unreachable (historical_data_query ''2024-01-01'' ''2024-01-02'')
      = ?up (historical_data_query ''2024-01-01'' ''2024-01-02'')"
    by (simp add: unreachable_def historical_data_query_def)
  note t1 = C6_upstream_queries_parameterized
      [of "''1 OR 1=1; DROP TABLE sensor_data''" "''2024-01-02''" "''2024-01-01''" "''2024-01-02''"]
  note t2 = C6_upstream_queries_parameterized
      [of "''2024-01-01''" "''2024-01-02''" _ _ unreachable ?up degraded no_conversion]
  from t1 have b: "sql (historical_data_query ''1 OR 1=1; DROP TABLE sensor_data'' ''2024-01-02'')
     = sql (historical_data_query ''2024-01-01'' ''2024-01-02'')"
    by blast
  from t1 have c: "binds (historical_data_query ''1 OR 1=1; DROP TABLE sensor_data'' ''2024-01-02'')
     = [(''start_time'', PyStr ''1 OR 1=1; DROP TABLE sensor_data''),
        (''end_time'', PyStr ''2024-01-02'')]"
    by blast
  from t2 a have d: "get_historical_data degraded unreachable no_conversion ''2024-01-01'' ''2024-01-02''
     = get_historical_data degraded ?up no_conversion ''2024-01-01'' ''2024-01-02''"
    by blast
  from a b c d show ?thesis
    by blast
qed




end
